theory Spec2Isabelle
  imports Main "HOL-Library.Sublist"
begin

section \<open>Python values, errors and the transport\<close>

text \<open>
  Property values are loosely typed JSON-like values. They are immutable in this model:
  only the top-level property dictionaries are mutable objects and live in the heap below.
\<close>

datatype pyval =
    VNone
  | VBool bool
  | VInt int
  | VStr string
  | VList "pyval list"
  | VDict "(string \<times> pyval) list"

text \<open>A Python dict from property names to values.\<close>

type_synonym props = "string \<rightharpoonup> pyval"

type_synonym addr = nat

text \<open>
  The exceptions of the session that the docstrings of \<^verbatim>\<open>_resource.py\<close> and \<^verbatim>\<open>_hba.py\<close> list
  under "Raises".
\<close>

datatype transport_error = HTTPError int | ParseError | AuthError | ConnectionError

text \<open>
  Every exception the modelled code can raise. \<open>RecursionError\<close> is what the interpreter
  raises when the nesting of calls exceeds its recursion limit.
\<close>

datatype error =
    KeyError string
  | TypeError
  | ValueError
  | AttributeError
  | AssertionError
  | RecursionError
  | Transport transport_error

text \<open>One entry of the log of calls made on the session.\<close>

datatype call = Get pyval | Post string props | Delete string

text \<open>
  The session (\<^verbatim>\<open>manager.session\<close>) and the system clock are not part of the two source files;
  they are parameters of the model. A response may depend on the calls made so far, so a
  deterministic server with state is covered. \<open>time_time\<close> is the value of
  \<^verbatim>\<open>int(time.time())\<close>, read after the given calls.
\<close>

record env =
  session_get :: "call list \<Rightarrow> pyval \<Rightarrow> transport_error + props"
  session_post :: "call list \<Rightarrow> string \<Rightarrow> props \<Rightarrow> transport_error + props"
  session_delete :: "call list \<Rightarrow> string \<Rightarrow> transport_error + unit"
  time_time :: "call list \<Rightarrow> int"

text \<open>
  The mutable world: the log of transport calls and a store of dict objects. A dict is
  referred to by its address, so that two references to one dict can be told from two
  equal dicts.
\<close>

record world =
  calls :: "call list"
  heap :: "addr \<Rightarrow> props"
  next_addr :: addr

text \<open>\<^verbatim>\<open>dict(d)\<close> and \<^verbatim>\<open>d.copy()\<close>: a new dict object with the given content.\<close>

definition alloc :: "props \<Rightarrow> world \<Rightarrow> addr \<times> world" where
  "alloc d w =
     (next_addr w, w\<lparr>heap := (heap w)(next_addr w := d), next_addr := Suc (next_addr w)\<rparr>)"

definition log_call :: "call \<Rightarrow> world \<Rightarrow> world" where
  "log_call c w = w\<lparr>calls := calls w @ [c]\<rparr>"

section \<open>BaseResource (\<^verbatim>\<open>_resource.py\<close>)\<close>

text \<open>
  The manager of a resource. \<^verbatim>\<open>_hba.py\<close> tells an \<^verbatim>\<open>HbaManager\<close> from any other object by
  \<^verbatim>\<open>isinstance\<close>; the string is the URI of the parent the manager is scoped to.
\<close>

datatype manager = HbaManager string | OtherManager string

text \<open>
  The instance attributes of a resource object. \<open>properties\<close> is \<^verbatim>\<open>_properties\<close>, a reference
  to a dict. \<open>uri_attr\<close> is the attribute \<^verbatim>\<open>_uri\<close> that the methods of \<^verbatim>\<open>Hba\<close> read:
  \<open>None\<close> means that the attribute is not set on the object.
\<close>

record resource =
  manager :: manager
  properties :: addr
  properties_timestamp :: int
  full_properties :: bool
  uri_attr :: "string option"

text \<open>
  \<^verbatim>\<open>BaseResource.__init__(self, manager, properties)\<close>: the input dict is copied, the
  time stamp is taken, the full-properties flag is off. \<^verbatim>\<open>_uri\<close> is not assigned.
\<close>

definition BaseResource_init :: "env \<Rightarrow> manager \<Rightarrow> addr \<Rightarrow> world \<Rightarrow> resource \<times> world" where
  "BaseResource_init e mgr props w =
     (let (a, w') = alloc (heap w props) w
      in (\<lparr>manager = mgr, properties = a,
           properties_timestamp = time_time e (calls w'),
           full_properties = False, uri_attr = None\<rparr>, w'))"

text \<open>
  \<^verbatim>\<open>get_property\<close> and \<^verbatim>\<open>pull_full_properties\<close> call each other. The first argument is the
  number of nested calls the interpreter still allows (its recursion limit): a call made
  with none left raises \<open>RecursionError\<close>. Each function returns its result or exception
  together with the resource object and the world as it left them.
\<close>

fun get_property ::
    "nat \<Rightarrow> env \<Rightarrow> string \<Rightarrow> resource \<Rightarrow> world \<Rightarrow> (error + pyval) \<times> resource \<times> world"
  and pull_full_properties ::
    "nat \<Rightarrow> env \<Rightarrow> resource \<Rightarrow> world \<Rightarrow> (error + unit) \<times> resource \<times> world"
where
  "get_property 0 e name r w = (Inl RecursionError, r, w)"
| "get_property (Suc d) e name r w =
     (case heap w (properties r) name of
        Some v \<Rightarrow> (Inr v, r, w)
      | None \<Rightarrow>
          if full_properties r then (Inl (KeyError name), r, w)
          else
            (case pull_full_properties d e r w of
               (Inl err, r', w') \<Rightarrow> (Inl err, r', w')
             | (Inr u, r', w') \<Rightarrow>
                 (case heap w' (properties r') name of
                    Some v \<Rightarrow> (Inr v, r', w')
                  | None \<Rightarrow> (Inl (KeyError name), r', w'))))"
| "pull_full_properties 0 e r w = (Inl RecursionError, r, w)"
| "pull_full_properties (Suc d) e r w =
     (case get_property d e ''object-uri'' r w of
        (Inl err, r', w') \<Rightarrow> (Inl err, r', w')
      | (Inr uri, r', w') \<Rightarrow>
          (case session_get e (calls w') uri of
             Inl terr \<Rightarrow> (Inl (Transport terr), r', log_call (Get uri) w')
           | Inr full \<Rightarrow>
               (let (a, w'') = alloc full (log_call (Get uri) w')
                in (Inr (),
                    r'\<lparr>properties := a,
                       properties_timestamp := time_time e (calls w''),
                       full_properties := True\<rparr>,
                    w''))))"

section \<open>HbaManager and Hba (\<^verbatim>\<open>_hba.py\<close>)\<close>

text \<open>
  An argument of a constructor call: a value, or a reference to a dict object.
\<close>

datatype arg = AVal pyval | ADict addr

text \<open>
  \<^verbatim>\<open>dict(v)\<close> for a value that is not a dict object of the store. A dict value is copied.
  Any other iterable is read as a sequence of key-value pairs: each element must itself
  be iterable (\<open>TypeError\<close> if not) and have exactly two items (\<open>ValueError\<close> if not), and
  the key must be hashable (\<open>TypeError\<close> for a list or a dict). A later pair overwrites
  an earlier one with the same key. The elements of a string are its characters, those
  of a dict its keys. A key that is hashable but no string is no property name: every
  lookup in this model is by name, so such an entry is left out of the result.
\<close>

fun dict_item :: "pyval \<Rightarrow> error + pyval \<times> pyval" where
  "dict_item (VList [k, v]) = Inr (k, v)"
| "dict_item (VList xs) = Inl ValueError"
| "dict_item (VStr [a, b]) = Inr (VStr [a], VStr [b])"
| "dict_item (VStr s) = Inl ValueError"
| "dict_item (VDict [kv, kv']) = Inr (VStr (fst kv), VStr (fst kv'))"
| "dict_item (VDict kvs) = Inl ValueError"
| "dict_item v = Inl TypeError"

fun dict_of_pairs :: "pyval list \<Rightarrow> props \<Rightarrow> error + props" where
  "dict_of_pairs [] d = Inr d"
| "dict_of_pairs (x # xs) d =
     (case dict_item x of
        Inl err \<Rightarrow> Inl err
      | Inr (VStr name, v) \<Rightarrow> dict_of_pairs xs (d(name \<mapsto> v))
      | Inr (VList ys, v) \<Rightarrow> Inl TypeError
      | Inr (VDict kvs, v) \<Rightarrow> Inl TypeError
      | Inr (k, v) \<Rightarrow> dict_of_pairs xs d)"

fun py_dict :: "pyval \<Rightarrow> error + props" where
  "py_dict (VDict kvs) = Inr (map_of kvs)"
| "py_dict (VList xs) = dict_of_pairs xs Map.empty"
| "py_dict (VStr s) = dict_of_pairs (map (\<lambda>c. VStr [c]) s) Map.empty"
| "py_dict v = Inl TypeError"

text \<open>
  A call of \<^verbatim>\<open>BaseResource.__init__\<close> with the given positional arguments after \<^verbatim>\<open>manager\<close>.
  The function has exactly one further parameter, \<^verbatim>\<open>properties\<close>, without a default; the
  interpreter raises \<open>TypeError\<close> for any other number of arguments before the body runs.
  With one argument the body runs: \<^verbatim>\<open>dict(properties)\<close> copies a dict object, and for any
  other value builds a dict or raises as \<open>py_dict\<close> says.
\<close>

fun BaseResource_init_call ::
    "env \<Rightarrow> manager \<Rightarrow> arg list \<Rightarrow> world \<Rightarrow> (error + resource) \<times> world" where
  "BaseResource_init_call e mgr [ADict props] w =
     (let (r, w') = BaseResource_init e mgr props w in (Inr r, w'))"
| "BaseResource_init_call e mgr [AVal v] w =
     (case py_dict v of
        Inl err \<Rightarrow> (Inl err, w)
      | Inr d \<Rightarrow>
          (let (a, w') = alloc d w
           in (Inr \<lparr>manager = mgr, properties = a,
                    properties_timestamp = time_time e (calls w'),
                    full_properties = False, uri_attr = None\<rparr>, w')))"
| "BaseResource_init_call e mgr args w = (Inl TypeError, w)"

fun isinstance_HbaManager :: "manager \<Rightarrow> bool" where
  "isinstance_HbaManager (HbaManager parent_uri) = True"
| "isinstance_HbaManager (OtherManager parent_uri) = False"

text \<open>
  \<^verbatim>\<open>Hba.__init__(self, manager, uri, name=None, properties=None)\<close>: the \<^verbatim>\<open>isinstance\<close> check,
  then \<^verbatim>\<open>super(Hba, self).__init__(manager, uri, name, properties)\<close>, which passes three
  arguments after \<^verbatim>\<open>manager\<close>.
\<close>

definition Hba_init ::
    "env \<Rightarrow> manager \<Rightarrow> arg \<Rightarrow> arg \<Rightarrow> arg \<Rightarrow> world \<Rightarrow> (error + resource) \<times> world" where
  "Hba_init e mgr uri name props w =
     (if \<not> isinstance_HbaManager mgr then (Inl AssertionError, w)
      else BaseResource_init_call e mgr [uri, name, props] w)"

text \<open>
  \<^verbatim>\<open>Hba.delete\<close>: \<^verbatim>\<open>self.manager.session.delete(self._uri)\<close>. Reading an attribute that is not
  set raises \<open>AttributeError\<close>.
\<close>

definition Hba_delete :: "env \<Rightarrow> resource \<Rightarrow> world \<Rightarrow> (error + unit) \<times> resource \<times> world" where
  "Hba_delete e r w =
     (case uri_attr r of
        None \<Rightarrow> (Inl AttributeError, r, w)
      | Some uri \<Rightarrow>
          (case session_delete e (calls w) uri of
             Inl terr \<Rightarrow> (Inl (Transport terr), r, log_call (Delete uri) w)
           | Inr u \<Rightarrow> (Inr (), r, log_call (Delete uri) w)))"

text \<open>
  \<^verbatim>\<open>Hba.update_properties\<close>: \<^verbatim>\<open>self.manager.session.post(self._uri, body=properties)\<close>; the
  response is dropped.
\<close>

definition Hba_update_properties ::
    "env \<Rightarrow> addr \<Rightarrow> resource \<Rightarrow> world \<Rightarrow> (error + unit) \<times> resource \<times> world" where
  "Hba_update_properties e props r w =
     (case uri_attr r of
        None \<Rightarrow> (Inl AttributeError, r, w)
      | Some uri \<Rightarrow>
          (case session_post e (calls w) uri (heap w props) of
             Inl terr \<Rightarrow> (Inl (Transport terr), r, log_call (Post uri (heap w props)) w)
           | Inr res \<Rightarrow> (Inr (), r, log_call (Post uri (heap w props)) w)))"

text \<open>
  \<^verbatim>\<open>Hba.reassign_port\<close>: the body \<^verbatim>\<open>{'adapter-port-uri': port.uri}\<close> is built first, then the
  URI from \<^verbatim>\<open>self._uri\<close>. The class of \<^verbatim>\<open>port\<close> is not in the source; the value of its
  \<^verbatim>\<open>uri\<close> attribute is the parameter \<open>port_uri\<close>.
\<close>

definition Hba_reassign_port ::
    "env \<Rightarrow> pyval \<Rightarrow> resource \<Rightarrow> world \<Rightarrow> (error + unit) \<times> resource \<times> world" where
  "Hba_reassign_port e port_uri r w =
     (let body = [''adapter-port-uri'' \<mapsto> port_uri]
      in case uri_attr r of
           None \<Rightarrow> (Inl AttributeError, r, w)
         | Some uri \<Rightarrow>
             (let target = uri @ ''/operations/reassign-storage-adapter-port''
              in case session_post e (calls w) target body of
                   Inl terr \<Rightarrow> (Inl (Transport terr), r, log_call (Post target body) w)
                 | Inr res \<Rightarrow> (Inr (), r, log_call (Post target body) w)))"

text \<open>
  \<^verbatim>\<open>HbaManager.create\<close>, with \<^verbatim>\<open>self.partition.uri\<close> as the parameter \<open>partition_uri\<close> (the
  class of the partition is not in the source). The request is sent, the input dict is
  copied, the copy is updated with the response, \<^verbatim>\<open>props['element-uri']\<close> is read and an
  \<^verbatim>\<open>Hba\<close> is constructed.
\<close>

definition HbaManager_create ::
    "env \<Rightarrow> string \<Rightarrow> addr \<Rightarrow> world \<Rightarrow> (error + resource) \<times> world" where
  "HbaManager_create e partition_uri input w =
     (let target = partition_uri @ ''/hbas''; body = heap w input
      in case session_post e (calls w) target body of
           Inl terr \<Rightarrow> (Inl (Transport terr), log_call (Post target body) w)
         | Inr result \<Rightarrow>
             (let (props, w1) = alloc (heap w input) (log_call (Post target body) w);
                  w2 = w1\<lparr>heap := (heap w1)(props := heap w1 props ++ result)\<rparr>
              in case heap w2 props ''element-uri'' of
                   None \<Rightarrow> (Inl (KeyError ''element-uri''), w2)
                 | Some uri \<Rightarrow>
                     Hba_init e (HbaManager partition_uri) (AVal uri) (AVal VNone)
                       (ADict props) w2))"

text \<open>Truth value of a Python value, as \<^verbatim>\<open>if uris:\<close> tests it.\<close>

fun truthy :: "pyval \<Rightarrow> bool" where
  "truthy VNone = False"
| "truthy (VBool b) = b"
| "truthy (VInt i) = (i \<noteq> 0)"
| "truthy (VStr s) = (s \<noteq> [])"
| "truthy (VList xs) = (xs \<noteq> [])"
| "truthy (VDict kvs) = (kvs \<noteq> [])"

text \<open>
  The elements \<^verbatim>\<open>for uri in uris\<close> visits: the items of a list, the characters of a string,
  the keys of a dict; anything else is not iterable.
\<close>

fun iterate :: "pyval \<Rightarrow> error + pyval list" where
  "iterate (VList xs) = Inr xs"
| "iterate (VStr s) = Inr (map (\<lambda>c. VStr [c]) s)"
| "iterate (VDict kvs) = Inr (map (\<lambda>kv. VStr (fst kv)) kvs)"
| "iterate v = Inl TypeError"

text \<open>
  The filter arguments of \<^verbatim>\<open>list\<close>, and \<^verbatim>\<open>BaseManager._matches_filters\<close>. The base class of
  the manager is not in the source, so the filter function is a parameter: any function
  of the resource object and the filter arguments that may use the session and may
  raise.
\<close>

type_synonym filter_args = "props option"

type_synonym matches_filters =
  "resource \<Rightarrow> filter_args \<Rightarrow> world \<Rightarrow> (error + bool) \<times> resource \<times> world"

text \<open>
  \<^verbatim>\<open>self.resource_class\<close>, called as
  \<^verbatim>\<open>self.resource_class(manager=self, uri=uri, name=None, properties=None)\<close>. The attribute
  belongs to the base class of the manager and holds the class given to its constructor;
  \<^verbatim>\<open>HbaManager.__init__\<close> gives \<^verbatim>\<open>Hba\<close>.
\<close>

type_synonym resource_class =
  "manager \<Rightarrow> arg \<Rightarrow> arg \<Rightarrow> arg \<Rightarrow> world \<Rightarrow> (error + resource) \<times> world"

text \<open>
  The loop of \<^verbatim>\<open>HbaManager.list\<close> over the URIs, with the list built so far. An exception
  leaves the loop, and the list is lost.
\<close>

fun list_loop ::
    "nat \<Rightarrow> env \<Rightarrow> resource_class \<Rightarrow> matches_filters \<Rightarrow> string \<Rightarrow> bool \<Rightarrow>
     filter_args \<Rightarrow> pyval list \<Rightarrow> resource list \<Rightarrow> world \<Rightarrow>
     (error + resource list) \<times> world" where
  "list_loop d e rc mf partition_uri full fa [] acc w = (Inr acc, w)"
| "list_loop d e rc mf partition_uri full fa (uri # uris) acc w =
     (case rc (HbaManager partition_uri) (AVal uri) (AVal VNone) (AVal VNone) w of
        (Inl err, w1) \<Rightarrow> (Inl err, w1)
      | (Inr obj, w1) \<Rightarrow>
          (case mf obj fa w1 of
             (Inl err, obj', w2) \<Rightarrow> (Inl err, w2)
           | (Inr False, obj', w2) \<Rightarrow> list_loop d e rc mf partition_uri full fa uris acc w2
           | (Inr True, obj', w2) \<Rightarrow>
               if full then
                 (case pull_full_properties d e obj' w2 of
                    (Inl err, obj'', w3) \<Rightarrow> (Inl err, w3)
                  | (Inr u, obj'', w3) \<Rightarrow>
                      list_loop d e rc mf partition_uri full fa uris (acc @ [obj'']) w3)
               else list_loop d e rc mf partition_uri full fa uris (acc @ [obj']) w2))"

text \<open>
  \<^verbatim>\<open>HbaManager.list\<close>. \<open>parent\<close> is the parent resource object \<^verbatim>\<open>self.partition\<close>, which
  \<^verbatim>\<open>get_property\<close> may complete; it is returned as the call left it. The resource class
  is \<^verbatim>\<open>Hba\<close>.
\<close>

definition HbaManager_list ::
    "nat \<Rightarrow> env \<Rightarrow> matches_filters \<Rightarrow> string \<Rightarrow> resource \<Rightarrow> bool \<Rightarrow> filter_args \<Rightarrow>
     world \<Rightarrow> (error + resource list) \<times> resource \<times> world" where
  "HbaManager_list d e mf partition_uri parent full fa w =
     (case get_property d e ''hba-uris'' parent w of
        (Inl err, p', w') \<Rightarrow> (Inl err, p', w')
      | (Inr uris, p', w') \<Rightarrow>
          if truthy uris then
            (case iterate uris of
               Inl err \<Rightarrow> (Inl err, p', w')
             | Inr xs \<Rightarrow>
                 (let (res, w'') = list_loop d e (Hba_init e) mf partition_uri full fa xs [] w'
                  in (res, p', w'')))
          else (Inr [], p', w'))"

section \<open>A concrete management console\<close>

text \<open>
  A session, a store and some resource objects on which the theorems below are run.
  Partition 1 has one HBA, partition 2 has no \<^verbatim>\<open>hba-uris\<close> property at all, partition 3 has
  an empty one, partition 4 has an empty one that only the full set of properties shows,
  and partition 9 has been deleted on the server. A create request is answered as in the
  scenario of the specification.
\<close>

definition partition1_props :: props where
  "partition1_props =
     [''object-uri'' \<mapsto> VStr ''/api/partitions/1'', ''name'' \<mapsto> VStr ''part1'',
      ''hba-uris'' \<mapsto> VList [VStr ''/api/partitions/1/hbas/10'']]"

definition partition2_props :: props where
  "partition2_props =
     [''object-uri'' \<mapsto> VStr ''/api/partitions/2'', ''name'' \<mapsto> VStr ''part2'',
      ''status'' \<mapsto> VStr ''active'']"

definition partition4_props :: props where
  "partition4_props =
     [''object-uri'' \<mapsto> VStr ''/api/partitions/4'', ''name'' \<mapsto> VStr ''part4'',
      ''hba-uris'' \<mapsto> VList []]"

definition created_props :: props where
  "created_props =
     [''element-uri'' \<mapsto> VStr ''/api/partitions/1/hbas/99'', ''name'' \<mapsto> VStr ''x'',
      ''type'' \<mapsto> VStr ''fcp'']"

definition hmc :: env where
  "hmc =
     \<lparr>session_get = (\<lambda>log uri.
        if uri = VStr ''/api/partitions/1'' then Inr partition1_props
        else if uri = VStr ''/api/partitions/2'' then Inr partition2_props
        else if uri = VStr ''/api/partitions/4'' then Inr partition4_props
        else Inl (HTTPError 404)),
      session_post = (\<lambda>log uri body. Inr created_props),
      session_delete = (\<lambda>log uri. Inr ()),
      time_time = (\<lambda>log. 1480000000 + int (length log))\<rparr>"

definition store0 :: "addr \<Rightarrow> props" where
  "store0 =
     (\<lambda>a. Map.empty)
       (0 := partition1_props,
        1 := [''object-uri'' \<mapsto> VStr ''/api/partitions/2'', ''name'' \<mapsto> VStr ''part2''],
        2 := [''element-uri'' \<mapsto> VStr ''/api/partitions/1/hbas/10''],
        3 := [''name'' \<mapsto> VStr ''x''],
        4 := [''object-uri'' \<mapsto> VStr ''/api/partitions/3'', ''hba-uris'' \<mapsto> VList []],
        5 := [''object-uri'' \<mapsto> VStr ''/api/partitions/9''])"

definition w0 :: world where
  "w0 = \<lparr>calls = [], heap = store0, next_addr = 6\<rparr>"

definition snapshot_at :: "addr \<Rightarrow> manager \<Rightarrow> resource" where
  "snapshot_at a mgr =
     \<lparr>manager = mgr, properties = a, properties_timestamp = 1480000000,
      full_properties = False, uri_attr = None\<rparr>"

definition part1 :: resource where
  "part1 = snapshot_at 0 (OtherManager ''/api/cpcs/1'')"

definition part2 :: resource where
  "part2 = snapshot_at 1 (OtherManager ''/api/cpcs/1'')"

text \<open>
  The resource object that \<^verbatim>\<open>BaseResource(manager, {'element-uri': ...})\<close> builds for the
  HBA of partition 1, with the world after the construction.
\<close>

definition bare_hba :: "resource \<times> world" where
  "bare_hba = BaseResource_init hmc (HbaManager ''/api/partitions/1'') 2 w0"

definition part3 :: resource where
  "part3 = snapshot_at 4 (OtherManager ''/api/cpcs/1'')"

definition part9 :: resource where
  "part9 = snapshot_at 5 (OtherManager ''/api/cpcs/1'')"

text \<open>The same world with the short snapshot of partition 4 in one more dict.\<close>

definition w1 :: world where
  "w1 =
     w0\<lparr>heap := (heap w0)
            (6 := [''object-uri'' \<mapsto> VStr ''/api/partitions/4'', ''name'' \<mapsto> VStr ''part4'']),
        next_addr := 7\<rparr>"

definition part4 :: resource where
  "part4 = snapshot_at 6 (OtherManager ''/api/cpcs/1'')"

text \<open>An HBA object on which the attribute \<^verbatim>\<open>_uri\<close> is set.\<close>

definition hba_with_uri :: resource where
  "hba_with_uri = (fst bare_hba)\<lparr>uri_attr := Some ''/api/partitions/1/hbas/10''\<rparr>"

text \<open>A filter function that lets every candidate pass, as for \<^verbatim>\<open>filter_args=None\<close>.\<close>

definition no_filter :: matches_filters where
  "no_filter obj fa w = (Inr True, obj, w)"

section \<open>Properties of the lazy property cache\<close>

subsection \<open>What one call of each function does\<close>

text \<open>A property that is in the snapshot is returned without any transport call.\<close>

lemma get_property_cached:
  "heap w (properties r) name = Some v \<Longrightarrow> get_property (Suc d) e name r w = (Inr v, r, w)"
  by simp

text \<open>
  A resource whose snapshot is not complete and has no \<^verbatim>\<open>object-uri\<close>: \<^verbatim>\<open>get_property\<close> calls
  \<^verbatim>\<open>pull_full_properties\<close>, which calls \<^verbatim>\<open>get_property('object-uri')\<close>, which pulls again,
  and so on. Whatever the recursion limit is, it is used up, nothing is fetched and
  nothing is changed.
\<close>

lemma unbounded_recursion_without_object_uri:
  assumes "\<not> full_properties r"
    and "heap w (properties r) ''object-uri'' = None"
  shows "(heap w (properties r) name = None \<longrightarrow>
            get_property d e name r w = (Inl RecursionError, r, w))
         \<and> pull_full_properties d e r w = (Inl RecursionError, r, w)"
  using assms
proof (induction d arbitrary: name)
  case 0
  show ?case by simp
next
  case (Suc d)
  have gp: "get_property d e ''object-uri'' r w = (Inl RecursionError, r, w)"
    using Suc.IH [of "''object-uri''"] Suc.prems by simp
  have pl: "pull_full_properties d e r w = (Inl RecursionError, r, w)"
    using Suc.IH [of name] Suc.prems by simp
  show ?case using gp pl Suc.prems by simp
qed

text \<open>With \<^verbatim>\<open>object-uri\<close> in the snapshot, a pull is one \<^verbatim>\<open>get\<close> on the session.\<close>

lemma pull_with_object_uri:
  assumes "heap w (properties r) ''object-uri'' = Some uri"
  shows "pull_full_properties (Suc (Suc d)) e r w =
           (case session_get e (calls w) uri of
              Inl terr \<Rightarrow> (Inl (Transport terr), r, log_call (Get uri) w)
            | Inr full \<Rightarrow>
                (Inr (),
                 r\<lparr>properties := next_addr w,
                   properties_timestamp := time_time e (calls w @ [Get uri]),
                   full_properties := True\<rparr>,
                 w\<lparr>calls := calls w @ [Get uri],
                   heap := (heap w)(next_addr w := full),
                   next_addr := Suc (next_addr w)\<rparr>))"
  using assms by (simp add: alloc_def log_call_def split: sum.splits)

lemma pull_complete_without_object_uri:
  assumes "full_properties r" and "heap w (properties r) ''object-uri'' = None"
  shows "pull_full_properties (Suc (Suc d)) e r w = (Inl (KeyError ''object-uri''), r, w)"
  using assms by simp

text \<open>These are all the ways a pull can end.\<close>

lemma pull_outcomes:
  "pull_full_properties d e r w = (Inl RecursionError, r, w)
   \<or> pull_full_properties d e r w = (Inl (KeyError ''object-uri''), r, w)
   \<or> (\<exists>uri. heap w (properties r) ''object-uri'' = Some uri \<and>
         pull_full_properties d e r w =
           (case session_get e (calls w) uri of
              Inl terr \<Rightarrow> (Inl (Transport terr), r, log_call (Get uri) w)
            | Inr full \<Rightarrow>
                (Inr (),
                 r\<lparr>properties := next_addr w,
                   properties_timestamp := time_time e (calls w @ [Get uri]),
                   full_properties := True\<rparr>,
                 w\<lparr>calls := calls w @ [Get uri],
                   heap := (heap w)(next_addr w := full),
                   next_addr := Suc (next_addr w)\<rparr>)))"
proof (cases "heap w (properties r) ''object-uri''")
  case (Some uri)
  show ?thesis
  proof (cases d)
    case 0
    then show ?thesis by simp
  next
    case (Suc d1)
    show ?thesis
    proof (cases d1)
      case 0
      with Suc show ?thesis by simp
    next
      case (Suc d2)
      with \<open>d = Suc d1\<close> Some pull_with_object_uri [OF Some, of d2 e]
      show ?thesis by simp
    qed
  qed
next
  case None
  show ?thesis
  proof (cases "full_properties r")
    case False
    with None unbounded_recursion_without_object_uri [of r w "''object-uri''" d e]
    show ?thesis by simp
  next
    case True
    show ?thesis
    proof (cases d)
      case 0
      then show ?thesis by simp
    next
      case (Suc d1)
      with True None show ?thesis by (cases d1) simp_all
    qed
  qed
qed

lemma pull_at_most_one_call:
  "calls (snd (snd (pull_full_properties d e r w))) = calls w
   \<or> (\<exists>uri. calls (snd (snd (pull_full_properties d e r w))) = calls w @ [Get uri])"
proof -
  consider
      (limit) "pull_full_properties d e r w = (Inl RecursionError, r, w)"
    | (missing) "pull_full_properties d e r w = (Inl (KeyError ''object-uri''), r, w)"
    | (call) uri where
        "pull_full_properties d e r w =
           (case session_get e (calls w) uri of
              Inl terr \<Rightarrow> (Inl (Transport terr), r, log_call (Get uri) w)
            | Inr full \<Rightarrow>
                (Inr (),
                 r\<lparr>properties := next_addr w,
                   properties_timestamp := time_time e (calls w @ [Get uri]),
                   full_properties := True\<rparr>,
                 w\<lparr>calls := calls w @ [Get uri],
                   heap := (heap w)(next_addr w := full),
                   next_addr := Suc (next_addr w)\<rparr>))"
    using pull_outcomes [of d e r w] by blast
  then show ?thesis
  proof cases
    case limit
    then show ?thesis by simp
  next
    case missing
    then show ?thesis by simp
  next
    case call
    then show ?thesis
      by (cases "session_get e (calls w) uri") (simp_all add: log_call_def)
  qed
qed

lemma get_property_world:
  "snd (snd (get_property d e name r w)) = w
   \<or> (\<exists>d'. snd (snd (get_property d e name r w)) = snd (snd (pull_full_properties d' e r w)))"
proof (cases d)
  case 0
  then show ?thesis by simp
next
  case (Suc d1)
  obtain res r' w' where p: "pull_full_properties d1 e r w = (res, r', w')"
    by (cases "pull_full_properties d1 e r w") auto
  have "snd (snd (get_property (Suc d1) e name r w)) = w
        \<or> snd (snd (get_property (Suc d1) e name r w)) = w'"
    using p by (cases res) (simp_all split: option.splits)
  with p Suc show ?thesis by (metis snd_conv)
qed

text \<open>No call of \<^verbatim>\<open>get_property\<close> makes more than one transport call.\<close>

lemma get_property_at_most_one_call:
  "calls (snd (snd (get_property d e name r w))) = calls w
   \<or> (\<exists>uri. calls (snd (snd (get_property d e name r w))) = calls w @ [Get uri])"
  using get_property_world [of d e name r w] pull_at_most_one_call [of _ e r w]
  by metis

text \<open>
  With \<^verbatim>\<open>object-uri\<close> in the snapshot, a missing property costs exactly one \<^verbatim>\<open>get\<close>; the
  property is then returned if the response has it, and \<open>KeyError\<close> is raised with the
  snapshot marked complete if not.
\<close>

lemma get_property_single_pull:
  assumes "\<not> full_properties r"
    and "heap w (properties r) name = None"
    and "heap w (properties r) ''object-uri'' = Some uri"
    and "session_get e (calls w) uri = Inr full"
  shows "get_property (Suc (Suc (Suc d))) e name r w =
           ((case full name of Some v \<Rightarrow> Inr v | None \<Rightarrow> Inl (KeyError name)),
            r\<lparr>properties := next_addr w,
              properties_timestamp := time_time e (calls w @ [Get uri]),
              full_properties := True\<rparr>,
            w\<lparr>calls := calls w @ [Get uri],
              heap := (heap w)(next_addr w := full),
              next_addr := Suc (next_addr w)\<rparr>)"
  using assms pull_with_object_uri [of w r uri d e]
  by (simp split: option.splits)

subsection \<open>The claims about \<^verbatim>\<open>get_property\<close> and \<^verbatim>\<open>pull_full_properties\<close>\<close>

text \<open>
  C1. The claim is that every incomplete resource answers a request for a missing property
  with exactly one transport call. The resource built from the short snapshot of an HBA
  holds \<^verbatim>\<open>element-uri\<close> and no \<^verbatim>\<open>object-uri\<close>; it is incomplete and has no \<^verbatim>\<open>name\<close>. Asking it
  for \<^verbatim>\<open>name\<close> makes no transport call at all and ends in \<open>RecursionError\<close>, at every
  recursion limit \<open>d\<close>.
\<close>

theorem C1_no_transport_call_without_object_uri:
  "\<not> full_properties (fst bare_hba)
   \<and> heap (snd bare_hba) (properties (fst bare_hba)) ''name'' = None
   \<and> get_property d hmc ''name'' (fst bare_hba) (snd bare_hba)
       = (Inl RecursionError, fst bare_hba, snd bare_hba)
   \<and> calls (snd bare_hba) = []"
proof -
  have state: "\<not> full_properties (fst bare_hba)"
    "heap (snd bare_hba) (properties (fst bare_hba)) ''object-uri'' = None"
    "heap (snd bare_hba) (properties (fst bare_hba)) ''name'' = None"
    "calls (snd bare_hba) = []"
    by (simp_all add: bare_hba_def BaseResource_init_def alloc_def w0_def store0_def)
  with unbounded_recursion_without_object_uri
    [of "fst bare_hba" "snd bare_hba" "''name''" d hmc]
  show ?thesis by simp
qed

text \<open>
  C2. If \<^verbatim>\<open>pull_full_properties\<close> ends with an error of the transport, then the resource
  object (its reference to the snapshot, its full-properties flag, its time stamp) is the
  one from before the call, no dict in the store has changed and none has been created;
  the only effect is the one call in the log.
\<close>

theorem C2_failed_pull_is_atomic:
  assumes "pull_full_properties d e r w = (Inl (Transport terr), r', w')"
  shows "r' = r \<and> heap w' = heap w \<and> next_addr w' = next_addr w
         \<and> (\<exists>uri. calls w' = calls w @ [Get uri])"
proof -
  from pull_outcomes [of d e r w] assms
  obtain uri where run:
    "(case session_get e (calls w) uri of
        Inl terr \<Rightarrow> (Inl (Transport terr), r, log_call (Get uri) w)
      | Inr full \<Rightarrow>
          (Inr (),
           r\<lparr>properties := next_addr w,
             properties_timestamp := time_time e (calls w @ [Get uri]),
             full_properties := True\<rparr>,
           w\<lparr>calls := calls w @ [Get uri],
             heap := (heap w)(next_addr w := full),
             next_addr := Suc (next_addr w)\<rparr>))
     = (Inl (Transport terr), r', w')"
    by auto
  show ?thesis
  proof (cases "session_get e (calls w) uri")
    case (Inl x)
    with run have "r' = r" and "w' = log_call (Get uri) w" by simp_all
    then show ?thesis by (simp add: log_call_def)
  next
    case (Inr full)
    with run show ?thesis by simp
  qed
qed

theorem C2_failed_pull_is_atomic_witness:
  "pull_full_properties 2 hmc part9 w0
     = (Inl (Transport (HTTPError 404)), part9, log_call (Get (VStr ''/api/partitions/9'')) w0)
   \<and> heap (log_call (Get (VStr ''/api/partitions/9'')) w0) = heap w0
   \<and> heap w0 (properties part9) = [''object-uri'' \<mapsto> VStr ''/api/partitions/9'']
   \<and> \<not> full_properties part9"
proof -
  have run: "pull_full_properties 2 hmc part9 w0
     = (Inl (Transport (HTTPError 404)), part9, log_call (Get (VStr ''/api/partitions/9'')) w0)"
    by (simp add: numeral_2_eq_2 hmc_def part9_def snapshot_at_def w0_def store0_def)
  from C2_failed_pull_is_atomic [OF run] run show ?thesis
    by (simp add: part9_def snapshot_at_def w0_def store0_def)
qed

text \<open>
  C3. Once the full set of properties has been retrieved (\<open>full_properties\<close> is true), asking
  for a property that is not in the snapshot raises \<open>KeyError\<close> for that name and makes no
  transport call: the resource and the world, hence the call log, are left exactly as
  they were.
\<close>

theorem C3_no_fetch_when_complete:
  assumes "full_properties r"
    and "heap w (properties r) name = None"
  shows "get_property (Suc d) e name r w = (Inl (KeyError name), r, w)"
  using assms by simp

theorem C3_no_fetch_when_complete_witness:
  "get_property 1 hmc ''hba-uris'' (part2\<lparr>full_properties := True\<rparr>) w0
     = (Inl (KeyError ''hba-uris''), part2\<lparr>full_properties := True\<rparr>, w0)"
  using C3_no_fetch_when_complete [of "part2\<lparr>full_properties := True\<rparr>" w0 "''hba-uris''" 0 hmc]
  by (simp add: part2_def snapshot_at_def w0_def store0_def)

text \<open>
  C4. The claim is that the pull inside \<^verbatim>\<open>get_property\<close> cannot recurse into further pulls,
  whatever the snapshot contains. On the resource built from the short snapshot of an
  HBA, which has no \<^verbatim>\<open>object-uri\<close>, both \<^verbatim>\<open>get_property('object-uri')\<close> and
  \<^verbatim>\<open>pull_full_properties\<close> nest pulls until the recursion limit \<open>d\<close> is reached, for every
  \<open>d\<close>: neither returns a value or a \<open>KeyError\<close>.
\<close>

theorem C4_pull_recursion_is_unbounded:
  "fst (get_property d hmc ''object-uri'' (fst bare_hba) (snd bare_hba)) = Inl RecursionError
   \<and> fst (pull_full_properties d hmc (fst bare_hba) (snd bare_hba)) = Inl RecursionError"
proof -
  have state: "\<not> full_properties (fst bare_hba)"
    "heap (snd bare_hba) (properties (fst bare_hba)) ''object-uri'' = None"
    by (simp_all add: bare_hba_def BaseResource_init_def alloc_def w0_def store0_def)
  with unbounded_recursion_without_object_uri
    [of "fst bare_hba" "snd bare_hba" "''object-uri''" d hmc]
  show ?thesis by simp
qed

section \<open>Properties of the HBA manager and the HBA resource\<close>

subsection \<open>Constructing an \<^verbatim>\<open>Hba\<close>\<close>

text \<open>
  With an \<^verbatim>\<open>HbaManager\<close> the check passes and the constructor of the base class is called
  with three arguments after \<^verbatim>\<open>manager\<close>, where it takes one: the call raises
  \<open>TypeError\<close>. So no call of \<^verbatim>\<open>Hba.__init__\<close> returns an object.
\<close>

lemma Hba_init_with_HbaManager:
  "isinstance_HbaManager mgr \<Longrightarrow> Hba_init e mgr uri name props w = (Inl TypeError, w)"
  by (simp add: Hba_init_def)

lemma Hba_init_never_returns:
  "fst (Hba_init e mgr uri name props w) \<noteq> Inr r"
  by (simp add: Hba_init_def)

text \<open>
  The guard of the constructor: a manager that is not an \<^verbatim>\<open>HbaManager\<close> gives
  \<open>AssertionError\<close> and leaves the world as it was (no dict is created, no call is made);
  an \<^verbatim>\<open>HbaManager\<close> never gives \<open>AssertionError\<close>.
\<close>

lemma Hba_init_guard:
  "(\<not> isinstance_HbaManager mgr \<longrightarrow>
      Hba_init e mgr uri name props w = (Inl AssertionError, w))
   \<and> (isinstance_HbaManager mgr \<longrightarrow>
      fst (Hba_init e mgr uri name props w) \<noteq> Inl AssertionError)"
  by (simp add: Hba_init_def)

text \<open>
  C10. The claim is that the check on the manager is what decides whether an \<^verbatim>\<open>Hba\<close> is
  constructed, so that the successfully constructed objects are those with an
  \<^verbatim>\<open>HbaManager\<close>. With the \<^verbatim>\<open>HbaManager\<close> of partition 1 the check passes, and the
  constructor still raises: \<open>TypeError\<close>, with no properties (as \<^verbatim>\<open>list\<close> calls it) and with
  a dict of properties (as \<^verbatim>\<open>create\<close> calls it). No \<^verbatim>\<open>Hba\<close> is constructed.
\<close>

theorem C10_Hba_with_HbaManager_is_not_constructed:
  "isinstance_HbaManager (HbaManager ''/api/partitions/1'')
   \<and> Hba_init hmc (HbaManager ''/api/partitions/1'') (AVal (VStr ''/api/partitions/1/hbas/10''))
        (AVal VNone) (AVal VNone) w0
       = (Inl TypeError, w0)
   \<and> Hba_init hmc (HbaManager ''/api/partitions/1'') (AVal (VStr ''/api/partitions/1/hbas/10''))
        (AVal VNone) (ADict 2) w0
       = (Inl TypeError, w0)"
  by (simp add: Hba_init_def)

subsection \<open>\<^verbatim>\<open>HbaManager.list\<close>\<close>

text \<open>The first child of the loop is never constructed.\<close>

lemma list_loop_first_child_fails:
  "list_loop d e (Hba_init e) mf partition_uri full fa (uri # uris) acc w = (Inl TypeError, w)"
  by (simp add: Hba_init_def)

text \<open>A true value is not iterable, or it has a first element.\<close>

lemma truthy_iterate:
  "truthy v \<Longrightarrow> iterate v = Inl TypeError \<or> (\<exists>x xs. iterate v = Inr (x # xs))"
  by (cases v) (auto simp: neq_Nil_conv)

lemma HbaManager_list_with_children_fails:
  assumes "get_property d e ''hba-uris'' parent w = (Inr uris, p', w')"
    and "truthy uris"
  shows "HbaManager_list d e mf partition_uri parent full fa w = (Inl TypeError, p', w')"
  using assms truthy_iterate [of uris]
  by (auto simp: HbaManager_list_def list_loop_first_child_fails simp del: list_loop.simps)

text \<open>Whenever \<^verbatim>\<open>list\<close> returns, it returns the empty list.\<close>

lemma HbaManager_list_returns_no_child:
  assumes "fst (HbaManager_list d e mf partition_uri parent full fa w) = Inr rs"
  shows "rs = []"
proof -
  obtain res p' w' where gp: "get_property d e ''hba-uris'' parent w = (res, p', w')"
    by (cases "get_property d e ''hba-uris'' parent w") auto
  show ?thesis
  proof (cases res)
    case (Inl err)
    with gp assms show ?thesis by (simp add: HbaManager_list_def)
  next
    case (Inr uris)
    show ?thesis
    proof (cases "truthy uris")
      case True
      with gp Inr HbaManager_list_with_children_fails [of d e parent w uris p' w' mf partition_uri full fa]
        assms show ?thesis by simp
    next
      case False
      with gp Inr assms show ?thesis by (simp add: HbaManager_list_def)
    qed
  qed
qed

text \<open>
  The loop itself keeps the order. For any resource class whose constructor records the
  URI on the object (as \<open>key\<close> of it, in \<^verbatim>\<open>_uri\<close>) and any filter function that leaves
  that attribute alone, the objects a run of the loop returns are those of a subsequence
  of the URIs, in their order, after the ones collected before.
\<close>

lemma pull_keeps_uri_attr:
  "uri_attr (fst (snd (pull_full_properties d e r w))) = uri_attr r"
proof -
  consider
      (limit) "pull_full_properties d e r w = (Inl RecursionError, r, w)"
    | (missing) "pull_full_properties d e r w = (Inl (KeyError ''object-uri''), r, w)"
    | (call) uri where
        "pull_full_properties d e r w =
           (case session_get e (calls w) uri of
              Inl terr \<Rightarrow> (Inl (Transport terr), r, log_call (Get uri) w)
            | Inr full \<Rightarrow>
                (Inr (),
                 r\<lparr>properties := next_addr w,
                   properties_timestamp := time_time e (calls w @ [Get uri]),
                   full_properties := True\<rparr>,
                 w\<lparr>calls := calls w @ [Get uri],
                   heap := (heap w)(next_addr w := full),
                   next_addr := Suc (next_addr w)\<rparr>))"
    using pull_outcomes [of d e r w] by blast
  then show ?thesis
  proof cases
    case call
    then show ?thesis by (cases "session_get e (calls w) uri") simp_all
  qed simp_all
qed

lemma list_loop_keeps_order:
  assumes rc: "\<And>m u n p w r w'. rc m (AVal u) n p w = (Inr r, w') \<Longrightarrow> uri_attr r = key u"
    and mf: "\<And>r fa w b r' w'. mf r fa w = (Inr b, r', w') \<Longrightarrow> uri_attr r' = uri_attr r"
    and run: "list_loop d e rc mf partition_uri full fa uris acc w = (Inr rs, w')"
  shows "\<exists>kept. subseq kept uris \<and> map uri_attr rs = map uri_attr acc @ map key kept"
  using run
proof (induction uris arbitrary: acc w)
  case Nil
  then show ?case by simp
next
  case (Cons uri uris)
  obtain res1 w1 where c: "rc (HbaManager partition_uri) (AVal uri) (AVal VNone) (AVal VNone) w
      = (res1, w1)"
    by (cases "rc (HbaManager partition_uri) (AVal uri) (AVal VNone) (AVal VNone) w") auto
  show ?case
  proof (cases res1)
    case (Inl err)
    with c Cons.prems show ?thesis by simp
  next
    case (Inr obj)
    with c rc have tag: "uri_attr obj = key uri" by simp
    obtain res2 obj' w2 where f: "mf obj fa w1 = (res2, obj', w2)"
      by (cases "mf obj fa w1") auto
    show ?thesis
    proof (cases res2)
      case (Inl err)
      with c Inr f Cons.prems show ?thesis by simp
    next
      case match: (Inr b)
      with f mf tag have tag': "uri_attr obj' = key uri" by simp
      show ?thesis
      proof (cases b)
        case False
        with c Inr f match Cons.prems
        have "list_loop d e rc mf partition_uri full fa uris acc w2 = (Inr rs, w')" by simp
        from Cons.IH [OF this] obtain kept
          where "subseq kept uris" "map uri_attr rs = map uri_attr acc @ map key kept"
          by blast
        then show ?thesis by (meson list_emb_Cons)
      next
        case True
        show ?thesis
        proof (cases full)
          case False
          with c Inr f match True Cons.prems
          have "list_loop d e rc mf partition_uri full fa uris (acc @ [obj']) w2 = (Inr rs, w')"
            by simp
          from Cons.IH [OF this] obtain kept where k: "subseq kept uris"
            "map uri_attr rs = map uri_attr (acc @ [obj']) @ map key kept"
            by blast
          have "subseq (uri # kept) (uri # uris)" using k(1) by simp
          moreover have "map uri_attr rs = map uri_attr acc @ map key (uri # kept)"
            using k(2) tag' by simp
          ultimately show ?thesis by blast
        next
          case full_on: True
          obtain res3 obj'' w3 where pl: "pull_full_properties d e obj' w2 = (res3, obj'', w3)"
            by (cases "pull_full_properties d e obj' w2") auto
          show ?thesis
          proof (cases res3)
            case (Inl err)
            with c Inr f match True full_on pl Cons.prems show ?thesis by simp
          next
            case pulled: (Inr u)
            from pl pull_keeps_uri_attr [of d e obj' w2] tag'
            have tag'': "uri_attr obj'' = key uri" by simp
            from c Inr f match True full_on pl pulled Cons.prems
            have "list_loop d e rc mf partition_uri full fa uris (acc @ [obj'']) w3 = (Inr rs, w')"
              by simp
            from Cons.IH [OF this] obtain kept where k: "subseq kept uris"
              "map uri_attr rs = map uri_attr (acc @ [obj'']) @ map key kept"
              by blast
            have "subseq (uri # kept) (uri # uris)" using k(1) by simp
            moreover have "map uri_attr rs = map uri_attr acc @ map key (uri # kept)"
              using k(2) tag'' by simp
            ultimately show ?thesis by blast
          qed
        qed
      qed
    qed
  qed
qed

text \<open>
  An empty \<^verbatim>\<open>hba-uris\<close> that only the lazy pull of the parent brings: one \<^verbatim>\<open>get\<close>, the
  parent completed, the empty list returned.
\<close>

lemma HbaManager_list_lazy_empty:
  assumes "heap w (properties parent) ''hba-uris'' = None" and "\<not> full_properties parent"
    and "heap w (properties parent) ''object-uri'' = Some uri"
    and "session_get e (calls w) uri = Inr fetched"
    and "fetched ''hba-uris'' = Some uris" and "\<not> truthy uris"
  shows "HbaManager_list (Suc (Suc (Suc d))) e mf partition_uri parent full fa w
        = (Inr [],
           parent\<lparr>properties := next_addr w,
             properties_timestamp := time_time e (calls w @ [Get uri]),
             full_properties := True\<rparr>,
           w\<lparr>calls := calls w @ [Get uri],
             heap := (heap w)(next_addr w := fetched),
             next_addr := Suc (next_addr w)\<rparr>)"
proof -
  have gp: "get_property (Suc (Suc (Suc d))) e ''hba-uris'' parent w =
           (Inr uris,
            parent\<lparr>properties := next_addr w,
              properties_timestamp := time_time e (calls w @ [Get uri]),
              full_properties := True\<rparr>,
            w\<lparr>calls := calls w @ [Get uri],
              heap := (heap w)(next_addr w := fetched),
              next_addr := Suc (next_addr w)\<rparr>)"
    using get_property_single_pull [of parent w "''hba-uris''" uri e fetched d] assms by simp
  show ?thesis unfolding HbaManager_list_def gp using assms(6) by simp
qed

text \<open>
  C5, as stated, fails where the parent has no \<^verbatim>\<open>hba-uris\<close> property at all. Partition 2
  has a short snapshot without it, and the server's full set of properties has none
  either: \<^verbatim>\<open>list\<close> raises \<open>KeyError\<close> instead of returning an empty list.
\<close>

theorem C5_list_raises_without_property:
  "fst (HbaManager_list (Suc (Suc (Suc 0))) hmc no_filter ''/api/partitions/2'' part2 False None w0)
     = Inl (KeyError ''hba-uris'')"
  by (simp add: HbaManager_list_def hmc_def part2_def snapshot_at_def w0_def
        store0_def partition2_props_def alloc_def log_call_def)

text \<open>
  C5, amended. If the parent's \<^verbatim>\<open>hba-uris\<close> property holds an empty sequence (or any other
  false value), \<^verbatim>\<open>list\<close> returns the empty list and raises nothing: with the parent and the
  world as they were when the property is in the parent's snapshot, and after the one
  \<^verbatim>\<open>get\<close> of the lazy pull, which completes the parent, when only the fetched properties
  hold it. If the parent has no such property, \<^verbatim>\<open>list\<close> raises \<open>KeyError\<close> for \<^verbatim>\<open>hba-uris\<close>: at
  once when the parent's snapshot is complete, and after the one \<^verbatim>\<open>get\<close> of the lazy pull
  when it is not and the fetched properties lack it too.
\<close>

theorem C5_list_without_children:
  "(heap w (properties parent) ''hba-uris'' = Some uris \<and> \<not> truthy uris \<longrightarrow>
      HbaManager_list (Suc d) e mf partition_uri parent full fa w = (Inr [], parent, w))
   \<and> (heap w (properties parent) ''hba-uris'' = None \<and> full_properties parent \<longrightarrow>
      HbaManager_list (Suc d) e mf partition_uri parent full fa w
        = (Inl (KeyError ''hba-uris''), parent, w))
   \<and> (heap w (properties parent) ''hba-uris'' = None \<and> \<not> full_properties parent
      \<and> heap w (properties parent) ''object-uri'' = Some uri
      \<and> session_get e (calls w) uri = Inr fetched \<and> fetched ''hba-uris'' = None \<longrightarrow>
      HbaManager_list (Suc (Suc (Suc d))) e mf partition_uri parent full fa w
        = (Inl (KeyError ''hba-uris''),
           parent\<lparr>properties := next_addr w,
             properties_timestamp := time_time e (calls w @ [Get uri]),
             full_properties := True\<rparr>,
           w\<lparr>calls := calls w @ [Get uri],
             heap := (heap w)(next_addr w := fetched),
             next_addr := Suc (next_addr w)\<rparr>))
   \<and> (heap w (properties parent) ''hba-uris'' = None \<and> \<not> full_properties parent
      \<and> heap w (properties parent) ''object-uri'' = Some uri
      \<and> session_get e (calls w) uri = Inr fetched \<and> fetched ''hba-uris'' = Some uris
      \<and> \<not> truthy uris \<longrightarrow>
      HbaManager_list (Suc (Suc (Suc d))) e mf partition_uri parent full fa w
        = (Inr [],
           parent\<lparr>properties := next_addr w,
             properties_timestamp := time_time e (calls w @ [Get uri]),
             full_properties := True\<rparr>,
           w\<lparr>calls := calls w @ [Get uri],
             heap := (heap w)(next_addr w := fetched),
             next_addr := Suc (next_addr w)\<rparr>))"
proof (intro conjI impI)
  assume "heap w (properties parent) ''hba-uris'' = Some uris \<and> \<not> truthy uris"
  then show "HbaManager_list (Suc d) e mf partition_uri parent full fa w = (Inr [], parent, w)"
    by (simp add: HbaManager_list_def)
next
  assume "heap w (properties parent) ''hba-uris'' = None \<and> full_properties parent"
  then show "HbaManager_list (Suc d) e mf partition_uri parent full fa w
        = (Inl (KeyError ''hba-uris''), parent, w)"
    by (simp add: HbaManager_list_def)
next
  assume a: "heap w (properties parent) ''hba-uris'' = None \<and> \<not> full_properties parent
      \<and> heap w (properties parent) ''object-uri'' = Some uri
      \<and> session_get e (calls w) uri = Inr fetched \<and> fetched ''hba-uris'' = None"
  then have gp: "get_property (Suc (Suc (Suc d))) e ''hba-uris'' parent w =
           (Inl (KeyError ''hba-uris''),
            parent\<lparr>properties := next_addr w,
              properties_timestamp := time_time e (calls w @ [Get uri]),
              full_properties := True\<rparr>,
            w\<lparr>calls := calls w @ [Get uri],
              heap := (heap w)(next_addr w := fetched),
              next_addr := Suc (next_addr w)\<rparr>)"
    using get_property_single_pull [of parent w "''hba-uris''" uri e fetched d] by simp
  show "HbaManager_list (Suc (Suc (Suc d))) e mf partition_uri parent full fa w
        = (Inl (KeyError ''hba-uris''),
           parent\<lparr>properties := next_addr w,
             properties_timestamp := time_time e (calls w @ [Get uri]),
             full_properties := True\<rparr>,
           w\<lparr>calls := calls w @ [Get uri],
             heap := (heap w)(next_addr w := fetched),
             next_addr := Suc (next_addr w)\<rparr>)"
    unfolding HbaManager_list_def gp by simp
next
  assume "heap w (properties parent) ''hba-uris'' = None \<and> \<not> full_properties parent
      \<and> heap w (properties parent) ''object-uri'' = Some uri
      \<and> session_get e (calls w) uri = Inr fetched \<and> fetched ''hba-uris'' = Some uris
      \<and> \<not> truthy uris"
  then show "HbaManager_list (Suc (Suc (Suc d))) e mf partition_uri parent full fa w
        = (Inr [],
           parent\<lparr>properties := next_addr w,
             properties_timestamp := time_time e (calls w @ [Get uri]),
             full_properties := True\<rparr>,
           w\<lparr>calls := calls w @ [Get uri],
             heap := (heap w)(next_addr w := fetched),
             next_addr := Suc (next_addr w)\<rparr>)"
    by (simp add: HbaManager_list_lazy_empty)
qed

theorem C5_list_without_children_witness:
  "HbaManager_list (Suc 0) hmc no_filter ''/api/partitions/3'' part3 False None w0 = (Inr [], part3, w0)
   \<and> HbaManager_list (Suc 0) hmc no_filter ''/api/partitions/2'' (part2\<lparr>full_properties := True\<rparr>)
        False None w0
       = (Inl (KeyError ''hba-uris''), part2\<lparr>full_properties := True\<rparr>, w0)
   \<and> fst (HbaManager_list (Suc (Suc (Suc 0))) hmc no_filter ''/api/partitions/2'' part2 False None w0)
       = Inl (KeyError ''hba-uris'')
   \<and> calls (snd (snd (HbaManager_list (Suc (Suc (Suc 0))) hmc no_filter ''/api/partitions/2'' part2 False None w0)))
       = [Get (VStr ''/api/partitions/2'')]
   \<and> HbaManager_list (Suc (Suc (Suc 0))) hmc no_filter ''/api/partitions/4'' part4 False None w1
       = (Inr [],
          part4\<lparr>properties := 7, properties_timestamp := 1480000001, full_properties := True\<rparr>,
          w1\<lparr>calls := [Get (VStr ''/api/partitions/4'')],
             heap := (heap w1)(7 := partition4_props), next_addr := 8\<rparr>)"
proof -
  have d: "heap w1 (properties part4) ''hba-uris'' = None \<and> \<not> full_properties part4
      \<and> heap w1 (properties part4) ''object-uri'' = Some (VStr ''/api/partitions/4'')
      \<and> session_get hmc (calls w1) (VStr ''/api/partitions/4'') = Inr partition4_props
      \<and> partition4_props ''hba-uris'' = Some (VList []) \<and> \<not> truthy (VList [])"
    by (simp add: part4_def snapshot_at_def w1_def w0_def hmc_def partition4_props_def)
  have at1: "calls w1 = []" "next_addr w1 = 7" "time_time hmc [Get (VStr ''/api/partitions/4'')]
      = 1480000001"
    by (simp_all add: w1_def w0_def hmc_def)
  from C5_list_without_children [of w1 part4 "VList []" 0 hmc no_filter "''/api/partitions/4''"
      False None "VStr ''/api/partitions/4''" partition4_props] d at1
  have 4: "HbaManager_list (Suc (Suc (Suc 0))) hmc no_filter ''/api/partitions/4'' part4 False None w1
       = (Inr [],
          part4\<lparr>properties := 7, properties_timestamp := 1480000001, full_properties := True\<rparr>,
          w1\<lparr>calls := [Get (VStr ''/api/partitions/4'')],
             heap := (heap w1)(7 := partition4_props), next_addr := 8\<rparr>)"
    by simp
  have a: "heap w0 (properties part3) ''hba-uris'' = Some (VList []) \<and> \<not> truthy (VList [])"
    by (simp add: part3_def snapshot_at_def w0_def store0_def)
  have b: "heap w0 (properties (part2\<lparr>full_properties := True\<rparr>)) ''hba-uris'' = None
      \<and> full_properties (part2\<lparr>full_properties := True\<rparr>)"
    by (simp add: part2_def snapshot_at_def w0_def store0_def)
  have c: "heap w0 (properties part2) ''hba-uris'' = None \<and> \<not> full_properties part2
      \<and> heap w0 (properties part2) ''object-uri'' = Some (VStr ''/api/partitions/2'')
      \<and> session_get hmc (calls w0) (VStr ''/api/partitions/2'') = Inr partition2_props
      \<and> partition2_props ''hba-uris'' = None"
    by (simp add: part2_def snapshot_at_def w0_def store0_def hmc_def partition2_props_def)
  have cw: "calls w0 = []" by (simp add: w0_def)
  from C5_list_without_children [of w0 part3 "VList []" 0 hmc no_filter "''/api/partitions/3''"
      False None] a
  have 1: "HbaManager_list (Suc 0) hmc no_filter ''/api/partitions/3'' part3 False None w0
      = (Inr [], part3, w0)"
    by simp
  from C5_list_without_children [of w0 "part2\<lparr>full_properties := True\<rparr>" _ 0 hmc no_filter
      "''/api/partitions/2''" False None] b
  have 2: "HbaManager_list (Suc 0) hmc no_filter ''/api/partitions/2'' (part2\<lparr>full_properties := True\<rparr>)
        False None w0
       = (Inl (KeyError ''hba-uris''), part2\<lparr>full_properties := True\<rparr>, w0)"
    by simp
  from C5_list_without_children [of w0 part2 _ 0 hmc no_filter "''/api/partitions/2''" False None
      "VStr ''/api/partitions/2''" partition2_props] c cw
  have 3: "fst (HbaManager_list (Suc (Suc (Suc 0))) hmc no_filter ''/api/partitions/2'' part2 False None w0)
       = Inl (KeyError ''hba-uris'')
     \<and> calls (snd (snd (HbaManager_list (Suc (Suc (Suc 0))) hmc no_filter ''/api/partitions/2'' part2 False None w0)))
       = [Get (VStr ''/api/partitions/2'')]"
    by simp
  from 1 2 3 4 show ?thesis by simp
qed

text \<open>
  C7. The claim is that \<^verbatim>\<open>list\<close> returns the surviving children in the order of the
  parent's URIs. Partition 1 has the one child URI of the specification's scenario in its
  snapshot; \<^verbatim>\<open>list\<close> without filter raises \<open>TypeError\<close> when it constructs the child, and
  returns no list.
\<close>

theorem C7_list_raises_TypeError:
  "heap w0 (properties part1) ''hba-uris'' = Some (VList [VStr ''/api/partitions/1/hbas/10''])
   \<and> HbaManager_list (Suc 0) hmc no_filter ''/api/partitions/1'' part1 False None w0
       = (Inl TypeError, part1, w0)"
proof -
  have snap: "heap w0 (properties part1) ''hba-uris''
      = Some (VList [VStr ''/api/partitions/1/hbas/10''])"
    by (simp add: part1_def snapshot_at_def w0_def store0_def partition1_props_def)
  then have "get_property (Suc 0) hmc ''hba-uris'' part1 w0
      = (Inr (VList [VStr ''/api/partitions/1/hbas/10'']), part1, w0)"
    by (rule get_property_cached)
  then have "HbaManager_list (Suc 0) hmc no_filter ''/api/partitions/1'' part1 False None w0
       = (Inl TypeError, part1, w0)"
    by (rule HbaManager_list_with_children_fails) simp
  with snap show ?thesis by simp
qed

subsection \<open>\<^verbatim>\<open>HbaManager.create\<close>\<close>

lemma HbaManager_create_never_returns:
  "fst (HbaManager_create e partition_uri input w) \<noteq> Inr r"
  by (simp add: HbaManager_create_def Let_def alloc_def Hba_init_def
        split: sum.splits option.splits prod.splits)

text \<open>
  C6. The claim is that \<^verbatim>\<open>create\<close> returns a resource whose properties are the input
  overlaid by the response. In the scenario of the specification the request is sent and
  the merged dict is built, equal to the three-key response, but the construction of the
  \<^verbatim>\<open>Hba\<close> from it raises \<open>TypeError\<close>: no resource is returned.
\<close>

theorem C6_create_raises_TypeError:
  "fst (HbaManager_create hmc ''/api/partitions/1'' 3 w0) = Inl TypeError
   \<and> calls (snd (HbaManager_create hmc ''/api/partitions/1'' 3 w0))
       = [Post ''/api/partitions/1/hbas'' [''name'' \<mapsto> VStr ''x'']]
   \<and> heap (snd (HbaManager_create hmc ''/api/partitions/1'' 3 w0)) 6 = created_props"
proof -
  have merged: "[''name'' \<mapsto> VStr ''x''] ++ created_props = created_props"
    by (rule ext) (simp add: created_props_def map_add_def)
  have uri: "created_props ''element-uri'' = Some (VStr ''/api/partitions/1/hbas/99'')"
    by (simp add: created_props_def)
  have post: "session_post hmc [] ''/api/partitions/1/hbas'' [''name'' \<mapsto> VStr ''x'']
      = Inr created_props"
    by (simp add: hmc_def)
  have input: "heap w0 3 = [''name'' \<mapsto> VStr ''x'']" and log: "calls w0 = []"
    and free: "next_addr w0 = 6"
    by (simp_all add: w0_def store0_def)
  have "HbaManager_create hmc ''/api/partitions/1'' 3 w0
      = (Inl TypeError,
         w0\<lparr>calls := [Post ''/api/partitions/1/hbas'' [''name'' \<mapsto> VStr ''x'']],
            heap := (heap w0)(6 := created_props), next_addr := 7\<rparr>)"
    by (simp add: HbaManager_create_def Let_def alloc_def log_call_def
          Hba_init_with_HbaManager input log free post merged uri)
  then show ?thesis by simp
qed

subsection \<open>The operations of an \<^verbatim>\<open>Hba\<close>\<close>

text \<open>
  None of the three operations assigns to the object or to a dict: the resource and the
  store are the same after the call, whatever the outcome.
\<close>

lemma Hba_operations_frame:
  "fst (snd (Hba_delete e r w)) = r \<and> heap (snd (snd (Hba_delete e r w))) = heap w"
  "fst (snd (Hba_update_properties e props r w)) = r
   \<and> heap (snd (snd (Hba_update_properties e props r w))) = heap w"
  "fst (snd (Hba_reassign_port e port_uri r w)) = r
   \<and> heap (snd (snd (Hba_reassign_port e port_uri r w))) = heap w"
  by (simp_all add: Hba_delete_def Hba_update_properties_def Hba_reassign_port_def Let_def
        log_call_def split: option.splits sum.splits)

text \<open>On an object that has the attribute \<^verbatim>\<open>_uri\<close>, each operation makes one call.\<close>

lemma Hba_operations_one_call:
  assumes "uri_attr r = Some uri"
  shows "calls (snd (snd (Hba_delete e r w))) = calls w @ [Delete uri]"
    and "calls (snd (snd (Hba_update_properties e props r w)))
           = calls w @ [Post uri (heap w props)]"
    and "calls (snd (snd (Hba_reassign_port e port_uri r w)))
           = calls w @ [Post (uri @ ''/operations/reassign-storage-adapter-port'')
                          [''adapter-port-uri'' \<mapsto> port_uri]]"
  using assms
  by (simp_all add: Hba_delete_def Hba_update_properties_def Hba_reassign_port_def Let_def
        log_call_def split: sum.splits)

text \<open>
  On an object initialised by \<^verbatim>\<open>BaseResource.__init__\<close>, which never assigns \<^verbatim>\<open>_uri\<close>,
  each operation raises \<open>AttributeError\<close> when it reads \<^verbatim>\<open>self._uri\<close>, and makes no call.
\<close>

lemma Hba_operations_without_uri_attr:
  "Hba_delete e (fst (BaseResource_init e mgr a w)) w'
     = (Inl AttributeError, fst (BaseResource_init e mgr a w), w')
   \<and> Hba_update_properties e props (fst (BaseResource_init e mgr a w)) w'
     = (Inl AttributeError, fst (BaseResource_init e mgr a w), w')
   \<and> Hba_reassign_port e port_uri (fst (BaseResource_init e mgr a w)) w'
     = (Inl AttributeError, fst (BaseResource_init e mgr a w), w')"
  by (simp add: Hba_delete_def Hba_update_properties_def Hba_reassign_port_def
        BaseResource_init_def alloc_def)

text \<open>
  C8. None of \<^verbatim>\<open>delete\<close>, \<^verbatim>\<open>update_properties\<close> and \<^verbatim>\<open>reassign_port\<close> changes anything locally,
  on any object and with any outcome: the resource object (its reference to the snapshot,
  its full-properties flag, its time stamp) and every dict of the store are as before
  the call. On an HBA object, that is one whose URI attribute \<^verbatim>\<open>_uri\<close> is set, each of them
  makes exactly one transport call: the log grows by the one request, whether the session
  answers or raises.
\<close>

theorem C8_operations_one_call_no_local_change:
  "fst (snd (Hba_delete e r w)) = r
   \<and> heap (snd (snd (Hba_delete e r w))) = heap w
   \<and> fst (snd (Hba_update_properties e props r w)) = r
   \<and> heap (snd (snd (Hba_update_properties e props r w))) = heap w
   \<and> fst (snd (Hba_reassign_port e port_uri r w)) = r
   \<and> heap (snd (snd (Hba_reassign_port e port_uri r w))) = heap w
   \<and> (uri_attr r = Some uri \<longrightarrow>
        calls (snd (snd (Hba_delete e r w))) = calls w @ [Delete uri]
        \<and> calls (snd (snd (Hba_update_properties e props r w)))
            = calls w @ [Post uri (heap w props)]
        \<and> calls (snd (snd (Hba_reassign_port e port_uri r w)))
            = calls w @ [Post (uri @ ''/operations/reassign-storage-adapter-port'')
                           [''adapter-port-uri'' \<mapsto> port_uri]])"
proof -
  have frame: "fst (snd (Hba_delete e r w)) = r \<and> heap (snd (snd (Hba_delete e r w))) = heap w"
    "fst (snd (Hba_update_properties e props r w)) = r
     \<and> heap (snd (snd (Hba_update_properties e props r w))) = heap w"
    "fst (snd (Hba_reassign_port e port_uri r w)) = r
     \<and> heap (snd (snd (Hba_reassign_port e port_uri r w))) = heap w"
    by (simp_all add: Hba_delete_def Hba_update_properties_def Hba_reassign_port_def Let_def
          log_call_def split: option.splits sum.splits)
  have del: "uri_attr r = Some uri \<Longrightarrow>
      calls (snd (snd (Hba_delete e r w))) = calls w @ [Delete uri]"
    by (simp add: Hba_delete_def log_call_def split: sum.splits)
  have upd: "uri_attr r = Some uri \<Longrightarrow>
      calls (snd (snd (Hba_update_properties e props r w)))
        = calls w @ [Post uri (heap w props)]"
    by (simp add: Hba_update_properties_def log_call_def split: sum.splits)
  have rea: "uri_attr r = Some uri \<Longrightarrow>
      calls (snd (snd (Hba_reassign_port e port_uri r w)))
        = calls w @ [Post (uri @ ''/operations/reassign-storage-adapter-port'')
                       [''adapter-port-uri'' \<mapsto> port_uri]]"
    by (simp add: Hba_reassign_port_def Let_def log_call_def split: sum.splits)
  show ?thesis using frame del upd rea by simp
qed

theorem C8_operations_one_call_no_local_change_witness:
  "uri_attr hba_with_uri = Some ''/api/partitions/1/hbas/10''
   \<and> Hba_delete hmc hba_with_uri (snd bare_hba)
       = (Inr (), hba_with_uri, log_call (Delete ''/api/partitions/1/hbas/10'') (snd bare_hba))
   \<and> fst (snd (Hba_update_properties hmc 3 hba_with_uri (snd bare_hba))) = hba_with_uri
   \<and> heap (snd (snd (Hba_update_properties hmc 3 hba_with_uri (snd bare_hba))))
       = heap (snd bare_hba)
   \<and> calls (snd (snd (Hba_update_properties hmc 3 hba_with_uri (snd bare_hba))))
       = [Post ''/api/partitions/1/hbas/10'' [''name'' \<mapsto> VStr ''x'']]
   \<and> fst (snd (Hba_reassign_port hmc (VStr ''/api/adapters/1/storage-ports/0'') hba_with_uri
        (snd bare_hba))) = hba_with_uri
   \<and> calls (snd (snd (Hba_reassign_port hmc (VStr ''/api/adapters/1/storage-ports/0'')
        hba_with_uri (snd bare_hba))))
       = [Post ''/api/partitions/1/hbas/10/operations/reassign-storage-adapter-port''
            [''adapter-port-uri'' \<mapsto> VStr ''/api/adapters/1/storage-ports/0'']]"
proof -
  have u: "uri_attr hba_with_uri = Some ''/api/partitions/1/hbas/10''"
    by (simp add: hba_with_uri_def)
  have st: "calls (snd bare_hba) = []" "heap (snd bare_hba) 3 = [''name'' \<mapsto> VStr ''x'']"
    by (simp_all add: bare_hba_def BaseResource_init_def alloc_def w0_def store0_def)
  have del: "fst (Hba_delete hmc hba_with_uri (snd bare_hba)) = Inr ()"
    by (simp add: Hba_delete_def u hmc_def)
  have full: "Hba_delete hmc hba_with_uri (snd bare_hba)
       = (Inr (), hba_with_uri, log_call (Delete ''/api/partitions/1/hbas/10'') (snd bare_hba))"
    by (simp add: Hba_delete_def u hmc_def)
  from C8_operations_one_call_no_local_change [of hmc hba_with_uri "snd bare_hba" 3
      "VStr ''/api/adapters/1/storage-ports/0''" "''/api/partitions/1/hbas/10''"] u st full
  show ?thesis by simp
qed

subsection \<open>Copies of the caller's dict\<close>

text \<open>
  C9. \<^verbatim>\<open>BaseResource.__init__\<close> stores a new dict, not the caller's: the reference differs
  from the input, the new dict has the input's content, the input is untouched, and
  writing anything to the input dict afterwards leaves the resource's properties as
  they were. \<^verbatim>\<open>HbaManager.create\<close> never changes the dict it is given, whatever the session
  answers and however the call ends; it sends the content of the input, and when the
  session answers it builds the merged properties (the input overlaid by the response)
  in a new dict at a fresh address, which is the only dict of the store that differs
  after the call. The input is a dict that exists: its address is below the next free
  one.
\<close>

theorem C9_input_dict_is_copied:
  assumes "input < next_addr w"
  shows "properties (fst (BaseResource_init e mgr input w)) \<noteq> input
     \<and> heap (snd (BaseResource_init e mgr input w))
          (properties (fst (BaseResource_init e mgr input w))) = heap w input
     \<and> heap (snd (BaseResource_init e mgr input w)) input = heap w input
     \<and> heap ((snd (BaseResource_init e mgr input w))
               \<lparr>heap := (heap (snd (BaseResource_init e mgr input w)))(input := changed)\<rparr>)
          (properties (fst (BaseResource_init e mgr input w))) = heap w input
     \<and> heap (snd (HbaManager_create e partition_uri input w)) input = heap w input
     \<and> calls (snd (HbaManager_create e partition_uri input w))
         = calls w @ [Post (partition_uri @ ''/hbas'') (heap w input)]
     \<and> (session_post e (calls w) (partition_uri @ ''/hbas'') (heap w input) = Inr result \<longrightarrow>
          next_addr w \<noteq> input
          \<and> heap (snd (HbaManager_create e partition_uri input w)) (next_addr w)
              = heap w input ++ result
          \<and> next_addr (snd (HbaManager_create e partition_uri input w)) = Suc (next_addr w)
          \<and> (\<forall>a. a \<noteq> next_addr w \<longrightarrow>
                heap (snd (HbaManager_create e partition_uri input w)) a = heap w a))"
proof -
  have fresh: "next_addr w \<noteq> input" using assms by simp
  have init: "BaseResource_init e mgr input w =
      (\<lparr>manager = mgr, properties = next_addr w,
        properties_timestamp = time_time e (calls w),
        full_properties = False, uri_attr = None\<rparr>,
       w\<lparr>heap := (heap w)(next_addr w := heap w input), next_addr := Suc (next_addr w)\<rparr>)"
    by (simp add: BaseResource_init_def alloc_def)
  have create: "heap (snd (HbaManager_create e partition_uri input w)) input = heap w input"
    using fresh
    by (simp add: HbaManager_create_def Let_def alloc_def log_call_def Hba_init_def
          split: sum.splits option.splits)
  have sent: "calls (snd (HbaManager_create e partition_uri input w))
         = calls w @ [Post (partition_uri @ ''/hbas'') (heap w input)]"
    by (simp add: HbaManager_create_def Let_def alloc_def log_call_def Hba_init_def
          split: sum.splits option.splits)
  have merged: "session_post e (calls w) (partition_uri @ ''/hbas'') (heap w input) = Inr result
      \<Longrightarrow> snd (HbaManager_create e partition_uri input w)
          = w\<lparr>calls := calls w @ [Post (partition_uri @ ''/hbas'') (heap w input)],
               heap := (heap w)(next_addr w := heap w input ++ result),
               next_addr := Suc (next_addr w)\<rparr>"
    by (simp add: HbaManager_create_def Let_def alloc_def log_call_def Hba_init_def
          split: option.splits)
  show ?thesis using fresh create sent merged by (simp add: init)
qed

theorem C9_input_dict_is_copied_witness:
  "properties (fst (BaseResource_init hmc (OtherManager ''/api/cpcs/1'') 3 w0)) = 6
   \<and> heap (snd (BaseResource_init hmc (OtherManager ''/api/cpcs/1'') 3 w0)) 6
       = [''name'' \<mapsto> VStr ''x'']
   \<and> heap (snd (BaseResource_init hmc (OtherManager ''/api/cpcs/1'') 3 w0)) 3
       = [''name'' \<mapsto> VStr ''x'']
   \<and> heap ((snd (BaseResource_init hmc (OtherManager ''/api/cpcs/1'') 3 w0))
            \<lparr>heap := (heap (snd (BaseResource_init hmc (OtherManager ''/api/cpcs/1'') 3 w0)))
                       (3 := Map.empty)\<rparr>) 6
       = [''name'' \<mapsto> VStr ''x'']
   \<and> heap (snd (HbaManager_create hmc ''/api/partitions/1'' 3 w0)) 3 = [''name'' \<mapsto> VStr ''x'']
   \<and> calls (snd (HbaManager_create hmc ''/api/partitions/1'' 3 w0))
       = [Post ''/api/partitions/1/hbas'' [''name'' \<mapsto> VStr ''x'']]
   \<and> heap (snd (HbaManager_create hmc ''/api/partitions/1'' 3 w0)) 6
       = [''name'' \<mapsto> VStr ''x''] ++ created_props
   \<and> next_addr (snd (HbaManager_create hmc ''/api/partitions/1'' 3 w0)) = 7"
proof -
  have alloc3: "(3::nat) < next_addr w0" by (simp add: w0_def)
  have at3: "heap w0 3 = [''name'' \<mapsto> VStr ''x'']" "calls w0 = []" "next_addr w0 = 6"
    by (simp_all add: w0_def store0_def)
  have at6: "properties (fst (BaseResource_init hmc (OtherManager ''/api/cpcs/1'') 3 w0)) = 6"
    by (simp add: BaseResource_init_def alloc_def w0_def)
  have post: "session_post hmc [] ''/api/partitions/1/hbas'' [''name'' \<mapsto> VStr ''x'']
      = Inr created_props"
    by (simp add: hmc_def)
  from C9_input_dict_is_copied [OF alloc3, of hmc "OtherManager ''/api/cpcs/1''" Map.empty
      "''/api/partitions/1''" created_props] at3 at6 post
  show ?thesis by simp
qed

end
